theory Spec2Isabelle
  imports Main
begin

section \<open>JavaScript values of the two configuration modules\<close>

text \<open>
  The repository's code is two ES modules, \<^verbatim>\<open>docusaurus.config.js\<close> and
  \<^verbatim>\<open>sidebars.js\<close>, each of which evaluates one object literal and exports it.
  The literals are built from strings, booleans, arrays and objects; an object keeps the
  order in which its properties were written. A value imported from another package is
  only passed through, so it is an opaque atom of a type parameter.
\<close>

datatype 'x jsval =
    JBool bool
  | JStr string
  | JArr "'x jsval list"
  | JObj "(string \<times> 'x jsval) list"
  | JExt 'x

text \<open>
  Property read on an object literal: when a key is written twice the later binding is the
  one the object keeps.
\<close>

fun lookup_prop :: "(string \<times> 'x jsval) list \<Rightarrow> string \<Rightarrow> 'x jsval option" where
  "lookup_prop [] k = None"
| "lookup_prop ((k', v) # kvs) k =
     (case lookup_prop kvs k of
        Some w \<Rightarrow> Some w
      | None \<Rightarrow> if k' = k then Some v else None)"

fun get_prop :: "'x jsval \<Rightarrow> string \<Rightarrow> 'x jsval option" where
  "get_prop (JObj kvs) k = lookup_prop kvs k"
| "get_prop (JBool b) k = None"
| "get_prop (JStr s) k = None"
| "get_prop (JArr xs) k = None"
| "get_prop (JExt x) k = None"

fun get_elem :: "'x jsval \<Rightarrow> nat \<Rightarrow> 'x jsval option" where
  "get_elem (JArr xs) i = (if i < length xs then Some (xs ! i) else None)"
| "get_elem (JBool b) i = None"
| "get_elem (JStr s) i = None"
| "get_elem (JObj kvs) i = None"
| "get_elem (JExt x) i = None"

datatype step = Key string | Idx nat

fun at_path :: "'x jsval \<Rightarrow> step list \<Rightarrow> 'x jsval option" where
  "at_path v [] = Some v"
| "at_path v (Key k # p) = (case get_prop v k of None \<Rightarrow> None | Some w \<Rightarrow> at_path w p)"
| "at_path v (Idx i # p) = (case get_elem v i of None \<Rightarrow> None | Some w \<Rightarrow> at_path w p)"

fun keys_of :: "'x jsval \<Rightarrow> string list" where
  "keys_of (JObj kvs) = map fst kvs"
| "keys_of (JBool b) = []"
| "keys_of (JStr s) = []"
| "keys_of (JArr xs) = []"
| "keys_of (JExt x) = []"

subsection \<open>Shape of a value\<close>




text \<open>
  All settings, at any depth, that satisfy a predicate on their key and value, each with
  the path that leads to it. An array element has the empty key.
\<close>

fun select :: "(string \<Rightarrow> 'x jsval \<Rightarrow> bool) \<Rightarrow> 'x jsval \<Rightarrow> (step list \<times> 'x jsval) list"
  and select_arr ::
    "(string \<Rightarrow> 'x jsval \<Rightarrow> bool) \<Rightarrow> nat \<Rightarrow> 'x jsval list \<Rightarrow> (step list \<times> 'x jsval) list"
  and select_obj ::
    "(string \<Rightarrow> 'x jsval \<Rightarrow> bool) \<Rightarrow> (string \<times> 'x jsval) list \<Rightarrow> (step list \<times> 'x jsval) list"
  where
  "select P (JArr xs) = select_arr P 0 xs"
| "select P (JObj kvs) = select_obj P kvs"
| "select P (JBool b) = []"
| "select P (JStr s) = []"
| "select P (JExt x) = []"
| "select_arr P i [] = []"
| "select_arr P i (x # xs) =
     (if P [] x then [([Idx i], x)] else [])
     @ map (\<lambda>e. (Idx i # fst e, snd e)) (select P x) @ select_arr P (Suc i) xs"
| "select_obj P [] = []"
| "select_obj P ((k, v) # kvs) =
     (if P k v then [([Key k], v)] else [])
     @ map (\<lambda>e. (Key k # fst e, snd e)) (select P v) @ select_obj P kvs"

text \<open>The value with the property at a path of keys deleted.\<close>

fun erase :: "string list \<Rightarrow> 'x jsval \<Rightarrow> 'x jsval"
  and erase_obj ::
    "string \<Rightarrow> string list \<Rightarrow> (string \<times> 'x jsval) list \<Rightarrow> (string \<times> 'x jsval) list" where
  "erase [] v = v"
| "erase (k # p) (JObj kvs) = JObj (erase_obj k p kvs)"
| "erase (k # p) (JBool b) = JBool b"
| "erase (k # p) (JStr s) = JStr s"
| "erase (k # p) (JArr xs) = JArr xs"
| "erase (k # p) (JExt x) = JExt x"
| "erase_obj k p [] = []"
| "erase_obj k p ((k', v) # kvs) =
     (if k' = k then (if p = [] then [] else [(k', erase p v)]) else [(k', v)])
     @ erase_obj k p kvs"

section \<open>The site configuration: docusaurus.config.js\<close>

text \<open>
  The module reads two things from outside the repository: the \<^verbatim>\<open>themes\<close> export of
  \<^verbatim>\<open>prism-react-renderer\<close> (bound to \<^verbatim>\<open>prismThemes\<close>, of which it takes
  \<^verbatim>\<open>github\<close> and \<^verbatim>\<open>dracula\<close>) and the clock, through
  \<^verbatim>\<open>new Date().getFullYear()\<close>. Both are parameters of the model.
\<close>

record 'x prismThemes =
  github :: 'x
  dracula :: 'x

text \<open>
  A template literal converts the year, an integral Number, to its decimal digits, with a
  leading minus sign below zero.
\<close>

definition digit_char :: "nat \<Rightarrow> char" where
  "digit_char d = char_of (48 + d)"

fun digits :: "nat \<Rightarrow> string" where
  "digits n = (if n < 10 then [digit_char n] else digits (n div 10) @ [digit_char (n mod 10)])"

definition number_to_string :: "int \<Rightarrow> string" where
  "number_to_string i = (if i < 0 then CHR ''-'' # digits (nat (- i)) else digits (nat i))"

text \<open>The footer template, before and after \<^verbatim>\<open>${new Date().getFullYear()}\<close>.\<close>

definition copyright_head :: string where
  \<open>copyright_head = concat
    [''\<newline>'',
     ''            <style>\<newline>'',
     ''              .footer-container {\<newline>'',
     ''                display: flex;\<newline>'',
     ''                justify-content: space-between;\<newline>'',
     ''                align-items: center;\<newline>'',
     ''                padding: 2rem;\<newline>'',
     ''                font-size: 1.1rem;\<newline>'',
     ''                gap: 1rem;\<newline>'',
     ''                line-height: 1.6;\<newline>'',
     ''              }\<newline>'',
     ''              \<newline>'',
     ''              @media (max-width: 768px) {\<newline>'',
     ''                .footer-container {\<newline>'',
     ''                  flex-direction: column;\<newline>'',
     ''                  text-align: center;\<newline>'',
     ''                  justify-content: center;\<newline>'',
     ''                  font-size: 1rem;\<newline>'',
     ''                }\<newline>'',
     ''              }\<newline>'',
     ''            </style>\<newline>'',
     ''            \<newline>'',
     ''            <div class="footer-container">\<newline>'',
     ''              \<newline>'',
     ''              <div>\<newline>'',
     ''                Copyright '' @ [CHR 0xA9] @ '' '']\<close>

definition copyright_tail :: string where
  \<open>copyright_tail = concat
    [''\<newline>'',
     ''                <a href="https://pragnakalp.com" target="_blank" rel="noopener noreferrer" \<newline>'',
     ''                  style="color: #0ea5e9; text-decoration: none; font-weight: 500; margin-left: 0.25rem;">\<newline>'',
     ''                  Pragnakalp Techlabs\<newline>'',
     ''                </a>. All rights reserved.\<newline>'',
     ''              </div>\<newline>'',
     ''\<newline>'',
     ''              <div>\<newline>'',
     ''                <strong>Contributors:</strong> Rahul, Nikunj, Neel, Meet, Dhvanil, Mansi, Darshit\<newline>'',
     ''              </div>\<newline>'',
     ''\<newline>'',
     ''            </div>\<newline>'',
     ''          '']\<close>

definition copyright :: "int \<Rightarrow> string" where
  "copyright fullYear = copyright_head @ number_to_string fullYear @ copyright_tail"

definition config :: "'x prismThemes \<Rightarrow> int \<Rightarrow> 'x jsval" where
  "config themes fullYear = JObj
     [(''title'', JStr ''backend-tools-handbook''),
      (''tagline'', JStr (''Comprehensive documentation of essential backend development tools ''
          @ ''including cURL, Postman, PostgreSQL, Git, Docker, and other utilities used in ''
          @ ''real-world projects.'')),
      (''favicon'', JStr ''img/pk-color-128.png''),
      (''future'', JObj [(''v4'', JBool True)]),
      (''url'', JStr ''https://pragnakalp.github.io''),
      (''baseUrl'', JStr ''/backend-tools-handbook/''),
      (''organizationName'', JStr ''pragnakalp''),
      (''projectName'', JStr ''backend-tools-handbook''),
      (''onBrokenLinks'', JStr ''throw''),
      (''i18n'', JObj
        [(''defaultLocale'', JStr ''en''),
         (''locales'', JArr [JStr ''en''])]),
      (''presets'', JArr
        [JArr
          [JStr ''classic'',
           JObj
            [(''docs'', JObj
               [(''sidebarPath'', JStr ''./sidebars.js''),
                (''routeBasePath'', JStr ''/''),
                (''editUrl'', JStr ''https://github.com/pragnakalp/backend-tools-handbook/tree/main/'')]),
             (''blog'', JBool False),
             (''theme'', JObj [(''customCss'', JStr ''./src/css/custom.css'')])]]]),
      (''themeConfig'', JObj
        [(''colorMode'', JObj [(''respectPrefersColorScheme'', JBool True)]),
         (''navbar'', JObj
           [(''title'', JStr ''Backend-tools-handbook''),
            (''logo'', JObj
              [(''alt'', JStr ''backend-tools-handbook Logo''),
               (''src'', JStr ''img/pk-color-128.png'')]),
            (''items'', JArr [])]),
         (''footer'', JObj
           [(''style'', JStr ''dark''),
            (''copyright'', JStr (copyright fullYear))]),
         (''prism'', JObj
           [(''theme'', JExt (github themes)),
            (''darkTheme'', JExt (dracula themes)),
            (''additionalLanguages'', JArr [JStr ''python'', JStr ''json''])])])]"

subsection \<open>Readings of the configuration\<close>

definition i18n_consistent :: "'x jsval \<Rightarrow> bool" where
  "i18n_consistent c =
     (case (at_path c [Key ''i18n'', Key ''defaultLocale''], at_path c [Key ''i18n'', Key ''locales'']) of
        (Some d, Some (JArr ls)) \<Rightarrow> d \<in> set ls
      | _ \<Rightarrow> False)"

text \<open>
  A failure-policy decision is a setting that says how a build problem is reported: its key
  is an \<^verbatim>\<open>on...\<close> handler name, or its value is one of the generator's reporting
  severities.
\<close>

definition reporting_severities :: "string list" where
  "reporting_severities = [''ignore'', ''log'', ''warn'', ''throw'']"

fun is_severity :: "'x jsval \<Rightarrow> bool" where
  "is_severity (JStr s) = (s \<in> set reporting_severities)"
| "is_severity (JBool b) = False"
| "is_severity (JArr xs) = False"
| "is_severity (JObj kvs) = False"
| "is_severity (JExt x) = False"

definition is_failure_policy :: "string \<Rightarrow> 'x jsval \<Rightarrow> bool" where
  "is_failure_policy k v = (take 2 k = ''on'' \<or> is_severity v)"

definition failure_policies :: "'x jsval \<Rightarrow> (step list \<times> 'x jsval) list" where
  "failure_policies v = select is_failure_policy v"

section \<open>The navigation descriptor: sidebars.js\<close>

definition sidebars :: "'x jsval" where
  "sidebars = JObj
     [(''tutorialSidebar'', JArr
       [JObj [(''type'', JStr ''doc''), (''id'', JStr ''index''), (''label'', JStr ''Home'')],
        JObj
         [(''type'', JStr ''category''),
          (''label'', JStr ''cURL''),
          (''items'', JArr
           [JObj [(''type'', JStr ''doc''), (''id'', JStr ''CURL_GUIDE''), (''label'', JStr ''Guide'')]])],
        JObj
         [(''type'', JStr ''category''),
          (''label'', JStr ''Postman''),
          (''items'', JArr
           [JObj [(''type'', JStr ''doc''), (''id'', JStr ''POSTMAN_GUIDE_PART1_BASICS''), (''label'', JStr ''Basics'')],
            JObj [(''type'', JStr ''doc''), (''id'', JStr ''POSTMAN_GUIDE_PART2_ADVANCED''), (''label'', JStr ''Advanced'')]])],
        JObj
         [(''type'', JStr ''category''),
          (''label'', JStr ''Git''),
          (''items'', JArr
           [JObj [(''type'', JStr ''doc''), (''id'', JStr ''Git_Guide''), (''label'', JStr ''Guide'')]])],
        JObj
         [(''type'', JStr ''category''),
          (''label'', JStr ''SQL''),
          (''items'', JArr
           [JObj [(''type'', JStr ''doc''), (''id'', JStr ''Introduction''), (''label'', JStr ''00 Introduction'')],
            JObj [(''type'', JStr ''doc''), (''id'', JStr ''Getting-Started''), (''label'', JStr ''01 Getting Started'')],
            JObj [(''type'', JStr ''doc''), (''id'', JStr ''Querying-Data''), (''label'', JStr ''02 Querying Data'')],
            JObj [(''type'', JStr ''doc''), (''id'', JStr ''Filtering-Data''), (''label'', JStr ''03 Filtering Data'')],
            JObj [(''type'', JStr ''doc''), (''id'', JStr ''Joining-Tables''), (''label'', JStr ''04 Joining Tables'')],
            JObj [(''type'', JStr ''doc''), (''id'', JStr ''Grouping-Data''), (''label'', JStr ''05 Grouping Data'')],
            JObj [(''type'', JStr ''doc''), (''id'', JStr ''Set-Operations''), (''label'', JStr ''06 Set Operations'')],
            JObj [(''type'', JStr ''doc''), (''id'', JStr ''Modifying-Data''), (''label'', JStr ''07 Modifying Data'')],
            JObj [(''type'', JStr ''doc''), (''id'', JStr ''Subqueries''), (''label'', JStr ''08 Subqueries'')],
            JObj [(''type'', JStr ''doc''), (''id'', JStr ''Data-Types''), (''label'', JStr ''09 Data Types'')],
            JObj [(''type'', JStr ''doc''), (''id'', JStr ''Managing-Tables''), (''label'', JStr ''10 Managing Tables'')],
            JObj [(''type'', JStr ''doc''), (''id'', JStr ''Constraints''), (''label'', JStr ''11 Constraints'')]])]])]"

subsection \<open>Nodes of the navigation tree\<close>

text \<open>
  A node's children are the elements of its \<^verbatim>\<open>items\<close> array. They are written
  inside the node, which is what the recursions over the tree rest on.
\<close>

lemma lookup_prop_size:
  "lookup_prop kvs k = Some w \<Longrightarrow> size w < Suc (size_list (size_prod (\<lambda>x. 0) size) kvs)"
  by (induction kvs arbitrary: w) (auto split: option.splits if_splits)

lemma get_prop_size: "get_prop v k = Some w \<Longrightarrow> size w < size v"
  by (cases v) (auto dest: lookup_prop_size)

fun items_of :: "'x jsval \<Rightarrow> 'x jsval list" where
  "items_of v = (case get_prop v ''items'' of Some (JArr xs) \<Rightarrow> xs | _ \<Rightarrow> [])"

lemma items_of_size [termination_simp]: "x \<in> set (items_of v) \<Longrightarrow> size x < size v"
proof -
  assume "x \<in> set (items_of v)"
  then obtain xs where g: "get_prop v ''items'' = Some (JArr xs)" and x: "x \<in> set xs"
    by (cases "get_prop v ''items''"; cases "the (get_prop v ''items'')") auto
  from x have "size x < size (JArr xs)"
    by (induction xs) auto
  with get_prop_size [OF g] show ?thesis by simp
qed

definition is_doc :: "'x jsval \<Rightarrow> bool" where
  "is_doc v = (get_prop v ''type'' = Some (JStr ''doc''))"

definition is_category :: "'x jsval \<Rightarrow> bool" where
  "is_category v = (get_prop v ''type'' = Some (JStr ''category''))"

fun is_string :: "'x jsval option \<Rightarrow> bool" where
  "is_string (Some (JStr s)) = True"
| "is_string _ = False"

fun is_array :: "'x jsval option \<Rightarrow> bool" where
  "is_array (Some (JArr xs)) = True"
| "is_array _ = False"

definition has_keys :: "'x jsval \<Rightarrow> string list \<Rightarrow> bool" where
  "has_keys v ks = (distinct (keys_of v) \<and> set (keys_of v) = set ks)"

text \<open>
  The shape the generator expects: a \<^verbatim>\<open>doc\<close> record with an id and a label, or a
  \<^verbatim>\<open>category\<close> record with a label and an array of items of the same shape.
\<close>

fun conforms_node :: "'x jsval \<Rightarrow> bool" where
  "conforms_node v =
     (if is_doc v then
        has_keys v [''type'', ''id'', ''label'']
        \<and> is_string (get_prop v ''id'') \<and> is_string (get_prop v ''label'')
      else if is_category v then
        has_keys v [''type'', ''label'', ''items'']
        \<and> is_string (get_prop v ''label'') \<and> is_array (get_prop v ''items'')
        \<and> list_all conforms_node (items_of v)
      else False)"

fun conforms_sidebar :: "'x jsval \<Rightarrow> bool" where
  "conforms_sidebar (JArr xs) = list_all conforms_node xs"
| "conforms_sidebar _ = False"

fun conforms_sidebars :: "'x jsval \<Rightarrow> bool" where
  "conforms_sidebars (JObj kvs) = list_all (\<lambda>kv. conforms_sidebar (snd kv)) kvs"
| "conforms_sidebars _ = False"

fun leaf_ids :: "'x jsval \<Rightarrow> string list" where
  "leaf_ids v =
     (if is_doc v
      then (case get_prop v ''id'' of Some (JStr i) \<Rightarrow> [i] | _ \<Rightarrow> [])
      else concat (map leaf_ids (items_of v)))"

fun labels_distinct :: "'x jsval \<Rightarrow> bool" where
  "labels_distinct v =
     (distinct (map (\<lambda>n. get_prop n ''label'') (items_of v))
      \<and> list_all labels_distinct (items_of v))"

fun depth :: "'x jsval \<Rightarrow> nat" where
  "depth v = (if is_category v then Suc (fold max (map depth (items_of v)) 0) else 1)"

fun categories_labelled :: "string \<Rightarrow> 'x jsval \<Rightarrow> 'x jsval list" where
  "categories_labelled l v =
     (if is_category v
      then (if get_prop v ''label'' = Some (JStr l) then [v] else [])
           @ concat (map (categories_labelled l) (items_of v))
      else [])"

definition tutorialSidebar :: "'x jsval list" where
  "tutorialSidebar =
     (case get_prop sidebars ''tutorialSidebar'' of Some (JArr xs) \<Rightarrow> xs | _ \<Rightarrow> [])"

text \<open>
  The documents of the content corpus whose file names are known:
  \<^verbatim>\<open>docs/Git_Guide.md\<close>, \<^verbatim>\<open>docs/Introduction.md\<close> and
  \<^verbatim>\<open>docs/Joining-Tables.md\<close>. No document carries front matter, so a document's
  id is its file name without the extension.
\<close>

definition named_documents :: "string list" where
  "named_documents = [''Git_Guide'', ''Introduction'', ''Joining-Tables'']"

declare conforms_node.simps [simp del] labels_distinct.simps [simp del] depth.simps [simp del]
  categories_labelled.simps [simp del] leaf_ids.simps [simp del] digits.simps [simp del]

lemmas node_defs = sidebars_def tutorialSidebar_def is_doc_def is_category_def

section \<open>The year in the footer\<close>

lemma digit_char_inj: "d < 10 \<Longrightarrow> e < 10 \<Longrightarrow> digit_char d = digit_char e \<Longrightarrow> d = e"
proof -
  assume d: "d < 10" and e: "e < 10" and eq: "digit_char d = digit_char e"
  from eq have "(of_char (char_of (48 + d)) :: nat) = of_char (char_of (48 + e))"
    by (simp add: digit_char_def)
  then have "(48 + d) mod 256 = (48 + e) mod 256"
    by (simp only: of_char_of)
  with d e show "d = e" by simp
qed

lemma digit_char_not_minus: "d < 10 \<Longrightarrow> digit_char d \<noteq> CHR ''-''"
proof
  assume d: "d < 10" and eq: "digit_char d = CHR ''-''"
  from eq have "(of_char (char_of (48 + d)) :: nat) = of_char (CHR ''-'')"
    by (simp add: digit_char_def)
  then have "(48 + d) mod 256 = 45"
    by (simp only: of_char_of) simp
  with d show False by simp
qed

lemma digits_not_Nil: "digits n \<noteq> []"
  by (subst digits.simps) simp

lemma digits_inj: "digits n = digits m \<Longrightarrow> n = m"
proof (induction n arbitrary: m rule: digits.induct)
  case (1 n)
  show ?case
  proof (cases "n < 10")
    case small_n: True
    show ?thesis
    proof (cases "m < 10")
      case True
      with small_n "1.prems" have "digit_char n = digit_char m"
        by (simp add: digits.simps)
      with small_n True show ?thesis by (rule digit_char_inj)
    next
      case False
      with small_n "1.prems" digits_not_Nil [of "m div 10"] show ?thesis
        by (simp add: digits.simps [of n] digits.simps [of m])
    qed
  next
    case big_n: False
    show ?thesis
    proof (cases "m < 10")
      case True
      with big_n "1.prems" digits_not_Nil [of "n div 10"] show ?thesis
        by (simp add: digits.simps [of n] digits.simps [of m])
    next
      case False
      with big_n "1.prems" have eq: "digits (n div 10) = digits (m div 10)"
        and c: "digit_char (n mod 10) = digit_char (m mod 10)"
        by (simp_all add: digits.simps [of n] digits.simps [of m])
      from "1.IH" [OF big_n eq] have q: "n div 10 = m div 10" .
      from c have r: "n mod 10 = m mod 10"
        by (rule digit_char_inj [rotated 2]) simp_all
      from q r show ?thesis
        by (metis div_mult_mod_eq)
    qed
  qed
qed

lemma minus_notin_digits: "CHR ''-'' \<notin> set (digits n)"
proof (induction n rule: digits.induct)
  case (1 n)
  show ?case
  proof (cases "n < 10")
    case True
    then show ?thesis
      using digit_char_not_minus [of n] by (auto simp: digits.simps [of n])
  next
    case False
    with "1.IH" digit_char_not_minus [of "n mod 10"] show ?thesis
      by (auto simp: digits.simps [of n])
  qed
qed

lemma number_to_string_inj: "number_to_string i = number_to_string j \<Longrightarrow> i = j"
proof -
  assume eq: "number_to_string i = number_to_string j"
  have hd_digits: "hd (digits n) \<noteq> CHR ''-''" for n
    using minus_notin_digits [of n] digits_not_Nil [of n] by (cases "digits n") auto
  show "i = j"
  proof (cases "i < 0")
    case neg_i: True
    show ?thesis
    proof (cases "j < 0")
      case True
      with neg_i eq have "digits (nat (- i)) = digits (nat (- j))"
        by (simp add: number_to_string_def)
      then have "nat (- i) = nat (- j)" by (rule digits_inj)
      with neg_i True show ?thesis by simp
    next
      case False
      with neg_i eq have "CHR ''-'' # digits (nat (- i)) = digits (nat j)"
        by (simp add: number_to_string_def)
      then have "hd (digits (nat j)) = CHR ''-''" by (metis list.sel(1))
      with hd_digits show ?thesis by simp
    qed
  next
    case pos_i: False
    show ?thesis
    proof (cases "j < 0")
      case True
      with pos_i eq have "digits (nat i) = CHR ''-'' # digits (nat (- j))"
        by (simp add: number_to_string_def)
      then have "hd (digits (nat i)) = CHR ''-''" by (metis list.sel(1))
      with hd_digits show ?thesis by simp
    next
      case False
      with pos_i eq have "digits (nat i) = digits (nat j)"
        by (simp add: number_to_string_def)
      then have "nat i = nat j" by (rule digits_inj)
      with pos_i False show ?thesis by simp
    qed
  qed
qed

lemma copyright_eq_iff: "copyright y = copyright y' \<longleftrightarrow> y = y'"
  by (auto simp: copyright_def dest: number_to_string_inj)

lemma config_eq_iff: "config themes y = config themes y' \<longleftrightarrow> y = y'"
  by (simp add: config_def copyright_eq_iff)

lemma copyright_starts_with_newline: "hd (copyright y) = CHR ''\<newline>''"
  by (simp add: copyright_def copyright_head_def)

lemma copyright_not_severity: "copyright y \<notin> set reporting_severities"
  using copyright_starts_with_newline [of y] by (auto simp: reporting_severities_def)

section \<open>Properties of the navigation descriptor\<close>

text \<open>
  The ids the leaves of the tree refer to, in sidebar order. The three documents whose
  file names are known are all among them.
\<close>

lemma tutorialSidebar_leaf_ids:
  "get_prop sidebars ''tutorialSidebar'' = Some (JArr tutorialSidebar)
   \<and> concat (map leaf_ids (tutorialSidebar :: 'x jsval list)) =
     [''index'', ''CURL_GUIDE'', ''POSTMAN_GUIDE_PART1_BASICS'',
      ''POSTMAN_GUIDE_PART2_ADVANCED'', ''Git_Guide'', ''Introduction'',
      ''Getting-Started'', ''Querying-Data'', ''Filtering-Data'',
      ''Joining-Tables'', ''Grouping-Data'', ''Set-Operations'',
      ''Modifying-Data'', ''Subqueries'', ''Data-Types'', ''Managing-Tables'',
      ''Constraints'']"
  by (simp add: node_defs leaf_ids.simps)

lemma named_documents_referenced:
  "list_all (\<lambda>d. d \<in> set (concat (map leaf_ids (tutorialSidebar :: 'x jsval list)))) named_documents"
  unfolding tutorialSidebar_leaf_ids [THEN conjunct2] named_documents_def by simp

text \<open>
  C4. The navigation descriptor has the shape the generator expects. The exported object
  has the single key \<^verbatim>\<open>tutorialSidebar\<close>, its value is an array, and every node in
  it is either a record with exactly the keys type, id and label, of type
  \<^verbatim>\<open>'doc'\<close> with a string id and a string label, or a record with exactly the keys
  type, label and items, of type \<^verbatim>\<open>'category'\<close> with a string label and an array of
  items that have the same shape, recursively.
\<close>

theorem sidebars_conform:
  "keys_of (sidebars :: 'x jsval) = [''tutorialSidebar'']
   \<and> conforms_sidebars (sidebars :: 'x jsval)"
  by (simp add: node_defs conforms_node.simps has_keys_def insert_commute)

text \<open>
  C5. The tree holds exactly one category labelled \<^verbatim>\<open>'SQL'\<close>, and the first three
  items of that category are the \<^verbatim>\<open>doc\<close> leaves for Introduction, Getting-Started
  and Querying-Data, in that order.
\<close>

theorem sql_category_order:
  "get_prop sidebars ''tutorialSidebar'' = Some (JArr tutorialSidebar)
   \<and> map (\<lambda>c. take 3 (map (\<lambda>n. (is_doc n, get_prop n ''id'')) (items_of c)))
       (concat (map (categories_labelled ''SQL'') (tutorialSidebar :: 'x jsval list)))
     = [[(True, Some (JStr ''Introduction'')),
         (True, Some (JStr ''Getting-Started'')),
         (True, Some (JStr ''Querying-Data''))]]"
  by (simp add: node_defs categories_labelled.simps)

text \<open>
  C6. Sibling labels are pairwise distinct at every level: the labels of the root sequence
  are distinct, and below every node of the tree the labels of its direct children are
  distinct.
\<close>

theorem sibling_labels_distinct:
  "get_prop sidebars ''tutorialSidebar'' = Some (JArr tutorialSidebar)
   \<and> distinct (map (\<lambda>n. get_prop n ''label'') (tutorialSidebar :: 'x jsval list))
   \<and> list_all labels_distinct (tutorialSidebar :: 'x jsval list)"
  by (simp add: node_defs labels_distinct.simps)

text \<open>
  C8. The navigation tree has depth exactly two. The only \<^verbatim>\<open>doc\<close> leaf of the root
  sequence is the one for \<^verbatim>\<open>index\<close>, every other root entry is a category, the items
  of every category are \<^verbatim>\<open>doc\<close> leaves only, and the deepest node is at level two.
\<close>

theorem navigation_depth_two:
  "get_prop sidebars ''tutorialSidebar'' = Some (JArr tutorialSidebar)
   \<and> map (\<lambda>n. get_prop n ''id'') (filter is_doc (tutorialSidebar :: 'x jsval list))
       = [Some (JStr ''index'')]
   \<and> list_all is_category (filter (\<lambda>n. \<not> is_doc n) (tutorialSidebar :: 'x jsval list))
   \<and> list_all (\<lambda>c. list_all is_doc (items_of c))
       (filter is_category (tutorialSidebar :: 'x jsval list))
   \<and> fold max (map depth (tutorialSidebar :: 'x jsval list)) 0 = 2"
  by (simp add: node_defs depth.simps)

section \<open>Properties of the site configuration\<close>

text \<open>
  C2, as the code has it. The configuration value is determined by the imported themes
  and the calendar year the clock gives: two evaluations with the same themes are equal
  exactly when they read the same year, and whatever the two years are the values agree
  once the footer's copyright text, which carries the year, is deleted. The navigation
  descriptor is a constant.
\<close>

theorem config_depends_on_year_only:
  "(config themes y = config themes y' \<longleftrightarrow> y = y')
   \<and> erase [''themeConfig'', ''footer'', ''copyright''] (config themes y)
       = erase [''themeConfig'', ''footer'', ''copyright''] (config themes y')
   \<and> at_path (config themes y) [Key ''themeConfig'', Key ''footer'', Key ''copyright'']
       = Some (JStr (copyright y))"
  by (simp add: config_eq_iff) (simp add: config_def)

text \<open>
  C2, as the specification states it, fails: evaluated with the same imported themes in 2025 and
  in 2026, the module exports two different values.
\<close>

theorem config_not_deterministic:
  "config \<lparr>github = ''github'', dracula = ''dracula''\<rparr> 2025
     \<noteq> config \<lparr>github = ''github'', dracula = ''dracula''\<rparr> 2026"
  by (simp add: config_eq_iff)

text \<open>
  C3. The configuration sets \<^verbatim>\<open>onBrokenLinks\<close> to \<^verbatim>\<open>'throw'\<close>, and that is the
  only failure-policy decision the repository declares: it is the only setting of the
  configuration, at any depth, with a handler key or a severity value, and the navigation
  descriptor has none.
\<close>

theorem on_broken_links_throw:
  "at_path (config themes y) [Key ''onBrokenLinks''] = Some (JStr ''throw'')
   \<and> failure_policies (config themes y) = [([Key ''onBrokenLinks''], JStr ''throw'')]
   \<and> failure_policies (sidebars :: 'x jsval) = []"
proof (intro conjI)
  show "at_path (config themes y) [Key ''onBrokenLinks''] = Some (JStr ''throw'')"
    by (simp add: config_def)
  show "failure_policies (config themes y) = [([Key ''onBrokenLinks''], JStr ''throw'')]"
    using copyright_not_severity [of y]
    by (simp add: config_def failure_policies_def is_failure_policy_def reporting_severities_def)
  show "failure_policies (sidebars :: 'x jsval) = []"
    by (simp add: sidebars_def failure_policies_def is_failure_policy_def reporting_severities_def)
qed



text \<open>
  C9. The internationalisation block is self-consistent: the default locale is
  \<^verbatim>\<open>'en'\<close>, the list of locales is exactly \<^verbatim>\<open>['en']\<close>, and so the default
  locale is one of the declared locales.
\<close>

theorem i18n_default_locale_declared:
  "at_path (config themes y) [Key ''i18n'', Key ''defaultLocale''] = Some (JStr ''en'')
   \<and> at_path (config themes y) [Key ''i18n'', Key ''locales''] = Some (JArr [JStr ''en''])
   \<and> i18n_consistent (config themes y)"
  by (simp add: config_def i18n_consistent_def)

text \<open>
  C10. The sidebar is the only navigation surface the configuration declares: the navbar's
  items array is empty, the blog is switched off, the docs are mounted at the site root
  and take their sidebar from \<^verbatim>\<open>'./sidebars.js'\<close>, and the footer declares no
  links.
\<close>

theorem sidebar_only_navigation:
  "at_path (config themes y) [Key ''themeConfig'', Key ''navbar'', Key ''items''] = Some (JArr [])
   \<and> at_path (config themes y) [Key ''presets'', Idx 0, Idx 1, Key ''blog''] = Some (JBool False)
   \<and> at_path (config themes y) [Key ''presets'', Idx 0, Idx 1, Key ''docs'', Key ''routeBasePath'']
       = Some (JStr ''/'')
   \<and> at_path (config themes y) [Key ''presets'', Idx 0, Idx 1, Key ''docs'', Key ''sidebarPath'']
       = Some (JStr ''./sidebars.js'')
   \<and> at_path (config themes y) [Key ''themeConfig'', Key ''footer'', Key ''links''] = None"
  by (simp add: config_def)

end
